theory Spec2Isabelle
  imports Complex_Main "HOL-Library.AList"
begin

section \<open>Lane arbitration: \<open>controllers/traffic_manager.py\<close>\<close>

text \<open>
  A lane is a pair of vertex ids. The three dictionaries of \<open>TrafficManager\<close> are
  association lists in insertion order, as a Python \<open>dict\<close> keeps them:
  \<open>d[k] = v\<close> is \<open>AList.update k v d\<close> (in place when the key is there, appended otherwise),
  \<open>del d[k]\<close> is \<open>AList.delete k d\<close>, \<open>k in d\<close> is \<open>k \<in> set (map fst d)\<close>.
  Readings of \<open>time.time()\<close> are a parameter of each operation; floats are read as reals.
  An entry of \<open>event_log\<close> keeps the event, the robot and the lane (its wall-clock
  stamp and the printed line are left out).
\<close>

type_synonym lane = "int \<times> int"

datatype LaneEvent = GRANTED | RELEASED | QUEUED | TIMEOUT | BLOCKED

datatype py_error = AttributeError | KeyError | NodeNotFound | NetworkXNoPath

record TrafficManager =
  occupied_lanes :: "(lane \<times> int) list"
  waiting_queues :: "(lane \<times> int list) list"
  occupation_timestamps :: "(lane \<times> real) list"
  last_deadlock_check :: real
  event_log :: "(LaneEvent \<times> int \<times> lane) list"

definition init_TrafficManager :: "real \<Rightarrow> TrafficManager" where
  "init_TrafficManager now =
     \<lparr>occupied_lanes = [], waiting_queues = [], occupation_timestamps = [],
      last_deadlock_check = now, event_log = []\<rparr>"

definition reverse_lane :: "lane \<Rightarrow> lane" where
  "reverse_lane lane = (snd lane, fst lane)"

definition is_lane_occupied :: "TrafficManager \<Rightarrow> lane \<Rightarrow> bool" where
  "is_lane_occupied tm lane \<longleftrightarrow> lane \<in> set (map fst (occupied_lanes tm))"

definition is_lane_available :: "TrafficManager \<Rightarrow> lane \<Rightarrow> bool" where
  "is_lane_available tm lane \<longleftrightarrow>
     lane \<notin> set (map fst (occupied_lanes tm)) \<and>
     reverse_lane lane \<notin> set (map fst (occupied_lanes tm))"

definition log_event :: "TrafficManager \<Rightarrow> LaneEvent \<Rightarrow> int \<Rightarrow> lane \<Rightarrow> TrafficManager" where
  "log_event tm event_type robot_id lane =
     tm\<lparr>event_log := event_log tm @ [(event_type, robot_id, lane)]\<rparr>"

text \<open>
  \<open>detect_collisions(lane)\<close>: with a lane, the pair of the lane and its reverse when the
  reverse is reserved; without one, every reserved lane whose reverse is reserved too
  (the source walks a \<open>set\<close>; the order of the keys is taken here).
\<close>

definition detect_collisions :: "TrafficManager \<Rightarrow> lane option \<Rightarrow> (lane \<times> lane) list" where
  "detect_collisions tm lane_opt =
     (let occupied_set = set (map fst (occupied_lanes tm)) in
      case lane_opt of
        Some lane \<Rightarrow>
          (if reverse_lane lane \<in> occupied_set then [(lane, reverse_lane lane)] else [])
      | None \<Rightarrow>
          map (\<lambda>l. (l, reverse_lane l))
            (filter (\<lambda>l. reverse_lane l \<in> occupied_set) (map fst (occupied_lanes tm))))"

text \<open>The queue of a lane after \<open>if lane not in waiting_queues: waiting_queues[lane] = []\<close>.\<close>

definition queue_of :: "TrafficManager \<Rightarrow> lane \<Rightarrow> int list" where
  "queue_of tm lane = (case map_of (waiting_queues tm) lane of None \<Rightarrow> [] | Some q \<Rightarrow> q)"

definition request_lane :: "TrafficManager \<Rightarrow> int \<Rightarrow> lane \<Rightarrow> real \<Rightarrow> bool \<times> TrafficManager" where
  "request_lane tm robot_id lane current_time =
     (if detect_collisions tm (Some lane) \<noteq> [] then
        (False, log_event tm BLOCKED robot_id lane)
      else if lane \<notin> set (map fst (occupied_lanes tm)) \<and>
              reverse_lane lane \<notin> set (map fst (occupied_lanes tm)) then
        (True, tm\<lparr>occupied_lanes := AList.update lane robot_id (occupied_lanes tm),
                 occupation_timestamps :=
                   AList.update lane current_time (occupation_timestamps tm)\<rparr>)
      else
        (let wq = (if lane \<notin> set (map fst (waiting_queues tm))
                   then AList.update lane [] (waiting_queues tm)
                   else waiting_queues tm);
             q = (case map_of wq lane of None \<Rightarrow> [] | Some q \<Rightarrow> q)
         in (False,
             tm\<lparr>waiting_queues :=
                  (if robot_id \<notin> set q then AList.update lane (q @ [robot_id]) wq
                   else wq)\<rparr>)))"

definition release_lane :: "TrafficManager \<Rightarrow> lane \<Rightarrow> TrafficManager" where
  "release_lane tm lane =
     (let tm1 =
            (if lane \<in> set (map fst (occupied_lanes tm)) then
               tm\<lparr>occupied_lanes := AList.delete lane (occupied_lanes tm),
                  occupation_timestamps :=
                    (if lane \<in> set (map fst (occupation_timestamps tm))
                     then AList.delete lane (occupation_timestamps tm)
                     else occupation_timestamps tm)\<rparr>
             else tm)
      in case map_of (waiting_queues tm1) lane of
           Some (next_robot # rest) \<Rightarrow>
             tm1\<lparr>waiting_queues := AList.update lane rest (waiting_queues tm1)\<rparr>
         | _ \<Rightarrow> tm1)"

definition stale_lanes :: "TrafficManager \<Rightarrow> real \<Rightarrow> lane list" where
  "stale_lanes tm current_time =
     map fst (filter (\<lambda>(lane, ts). current_time - ts > 5) (occupation_timestamps tm))"

definition perform_periodic_checks :: "TrafficManager \<Rightarrow> real \<Rightarrow> TrafficManager" where
  "perform_periodic_checks tm current_time =
     (if current_time - last_deadlock_check tm > 2 then
        (let tm1 = tm\<lparr>last_deadlock_check := current_time\<rparr>
         in fold (\<lambda>lane s. release_lane s lane) (stale_lanes tm1 current_time) tm1)
      else tm)"

text \<open>
  \<open>_resolve_issues\<close> logs a timeout for the owner of each stale lane before releasing it;
  \<open>self.occupied_lanes[lane]\<close> raises \<open>KeyError\<close> when the lane has a time stamp and no
  owner, and the arbiter keeps what the loop had done until then. The deadlock part is
  the stub of the source: \<open>_find_deadlocks\<close> returns the empty set.
\<close>

fun resolve_issues_loop :: "lane list \<Rightarrow> TrafficManager \<Rightarrow> py_error option \<times> TrafficManager" where
  "resolve_issues_loop [] tm = (None, tm)"
| "resolve_issues_loop (lane # lanes) tm =
     (case map_of (occupied_lanes tm) lane of
        None \<Rightarrow> (Some KeyError, tm)
      | Some owner \<Rightarrow>
          resolve_issues_loop lanes (release_lane (log_event tm TIMEOUT owner lane) lane))"

definition resolve_issues :: "TrafficManager \<Rightarrow> real \<Rightarrow> py_error option \<times> TrafficManager" where
  "resolve_issues tm current_time = resolve_issues_loop (stale_lanes tm current_time) tm"

text \<open>
  \<open>resolve_deadlocks\<close> walks a snapshot of the reserved lanes; after releasing a lane it
  reads that lane's owner for the log entry.
\<close>

fun resolve_deadlocks_loop ::
  "lane list \<Rightarrow> real \<Rightarrow> TrafficManager \<Rightarrow> py_error option \<times> TrafficManager" where
  "resolve_deadlocks_loop [] now tm = (None, tm)"
| "resolve_deadlocks_loop (lane # lanes) now tm =
     (if now - (case map_of (occupation_timestamps tm) lane of None \<Rightarrow> 0 | Some ts \<Rightarrow> ts) > 5
      then
        (let tm1 = release_lane tm lane in
         case map_of (occupied_lanes tm1) lane of
           None \<Rightarrow> (Some KeyError, tm1)
         | Some owner \<Rightarrow> resolve_deadlocks_loop lanes now (log_event tm1 TIMEOUT owner lane))
      else resolve_deadlocks_loop lanes now tm)"

definition resolve_deadlocks :: "TrafficManager \<Rightarrow> real \<Rightarrow> py_error option \<times> TrafficManager" where
  "resolve_deadlocks tm now = resolve_deadlocks_loop (map fst (occupied_lanes tm)) now tm"

definition clear_queues :: "TrafficManager \<Rightarrow> TrafficManager" where
  "clear_queues tm = tm\<lparr>waiting_queues := []\<rparr>"

text \<open>
  \<open>_grant_access\<close> and \<open>_remove_from_other_queues\<close>: the grant that also takes the robot
  out of every queue (\<open>queue.remove\<close> deletes the first occurrence). No method of the
  source calls \<open>_grant_access\<close>.
\<close>

definition remove_from_other_queues :: "TrafficManager \<Rightarrow> int \<Rightarrow> TrafficManager" where
  "remove_from_other_queues tm robot_id =
     tm\<lparr>waiting_queues := map (\<lambda>(lane, queue). (lane, remove1 robot_id queue)) (waiting_queues tm)\<rparr>"

definition grant_access :: "TrafficManager \<Rightarrow> int \<Rightarrow> lane \<Rightarrow> real \<Rightarrow> TrafficManager" where
  "grant_access tm robot_id lane now =
     remove_from_other_queues
       (tm\<lparr>occupied_lanes := AList.update lane robot_id (occupied_lanes tm),
           occupation_timestamps := AList.update lane now (occupation_timestamps tm)\<rparr>)
       robot_id"

subsection \<open>Sequences of arbiter operations\<close>

datatype arbiter_op =
    RequestLane int lane real
  | ReleaseLane lane
  | PeriodicChecks real
  | ResolveIssues real
  | ResolveDeadlocks real

fun apply_op :: "arbiter_op \<Rightarrow> TrafficManager \<Rightarrow> TrafficManager" where
  "apply_op (RequestLane robot_id lane now) tm = snd (request_lane tm robot_id lane now)"
| "apply_op (ReleaseLane lane) tm = release_lane tm lane"
| "apply_op (PeriodicChecks now) tm = perform_periodic_checks tm now"
| "apply_op (ResolveIssues now) tm = snd (resolve_issues tm now)"
| "apply_op (ResolveDeadlocks now) tm = snd (resolve_deadlocks tm now)"

definition run_ops :: "arbiter_op list \<Rightarrow> TrafficManager \<Rightarrow> TrafficManager" where
  "run_ops ops tm = fold apply_op ops tm"

section \<open>The navigation graph: \<open>models/nav_graph.py\<close>\<close>

text \<open>
  \<open>NavGraph.graph\<close> is a \<open>networkx.DiGraph\<close> filled by \<open>add_edge\<close> alone, so it is the
  list of its edges and its nodes are their end points. \<open>nx.astar_path\<close> belongs to the
  library, not to the repository: its search is a parameter \<open>search\<close> (\<open>None\<close> when the
  target cannot be reached), and its interface is the library's: \<open>NodeNotFound\<close> is raised
  when the source or the target is no node of the graph, \<open>NetworkXNoPath\<close> when the search
  finds no path. \<open>get_shortest_path\<close> catches \<open>NetworkXNoPath\<close> only.
\<close>

type_synonym path_search = "lane list \<Rightarrow> int \<Rightarrow> int \<Rightarrow> int list option"

record NavGraph =
  vertices :: "(real \<times> real \<times> bool) list"
  lanes :: "lane list"
  graph_edges :: "lane list"

definition graph_nodes :: "lane list \<Rightarrow> int set" where
  "graph_nodes G = fst ` set G \<union> snd ` set G"

definition astar_path :: "path_search \<Rightarrow> lane list \<Rightarrow> int \<Rightarrow> int \<Rightarrow> py_error + int list" where
  "astar_path search G source target =
     (if source \<notin> graph_nodes G \<or> target \<notin> graph_nodes G then Inl NodeNotFound
      else case search G source target of
             None \<Rightarrow> Inl NetworkXNoPath
           | Some p \<Rightarrow> Inr p)"

definition get_shortest_path ::
  "path_search \<Rightarrow> NavGraph \<Rightarrow> int \<Rightarrow> int \<Rightarrow> py_error + int list" where
  "get_shortest_path search ng start end_v =
     (case astar_path search (graph_edges ng) start end_v of
        Inr p \<Rightarrow> Inr p
      | Inl NetworkXNoPath \<Rightarrow> Inr []
      | Inl e \<Rightarrow> Inl e)"

text \<open>
  A search for the closed examples below: the trivial path and single edges. On a graph
  with no two consecutive edges it is what a shortest-path search returns.
\<close>

definition one_hop_search :: path_search where
  "one_hop_search G s t =
     (if s = t then Some [s] else if (s, t) \<in> set G then Some [s, t] else None)"

section \<open>The agent: \<open>models/robot.py\<close>\<close>

record RobotConfig =
  battery_drain_rate :: real
  charge_rate :: real
  min_battery :: real
  max_wait_time :: real
  movement_speed :: real

definition default_RobotConfig :: RobotConfig where
  "default_RobotConfig =
     \<lparr>battery_drain_rate = 0.5, charge_rate = 2.0, min_battery = 20.0,
      max_wait_time = 10.0, movement_speed = 1.0\<rparr>"

datatype robot_msg =
    CannotAssign string
  | NoValidPath int
  | Assigned int "int list"
  | MovementFailed
  | Replanning

text \<open>
  The fields of \<open>Robot\<close>; \<open>id\<close> and \<open>log\<close> carry a suffix. \<open>nav_graph\<close> is optional because
  the fleet manager tests it; \<open>log_robot\<close> keeps the messages without their time stamp.
\<close>

record Robot =
  id_robot :: int
  current_vertex :: int
  destination :: "int option"
  path :: "int list"
  status :: string
  battery :: real
  last_update_time :: real
  wait_start_time :: "real option"
  config :: RobotConfig
  nav_graph :: "NavGraph option"
  color :: "int \<times> int \<times> int"
  current_lane :: "lane option"
  progress :: real
  log_robot :: "robot_msg list"

definition generate_color :: "int \<Rightarrow> int \<times> int \<times> int" where
  "generate_color robot_id =
     ((robot_id * 50) mod 256, (robot_id * 100) mod 256, (robot_id * 150) mod 256)"

definition init_Robot :: "int \<Rightarrow> int \<Rightarrow> NavGraph option \<Rightarrow> RobotConfig \<Rightarrow> real \<Rightarrow> Robot" where
  "init_Robot robot_id start_vertex_idx ng cfg now =
     \<lparr>id_robot = robot_id, current_vertex = start_vertex_idx, destination = None,
      path = [], status = ''idle'', battery = 100.0, last_update_time = now,
      wait_start_time = None, config = cfg, nav_graph = ng,
      color = generate_color robot_id, current_lane = None, progress = 0.0,
      log_robot = []\<rparr>"

definition log_msg :: "Robot \<Rightarrow> robot_msg \<Rightarrow> Robot" where
  "log_msg r m = r\<lparr>log_robot := log_robot r @ [m]\<rparr>"

text \<open>
  \<open>_calculate_path\<close>. An exception of the path provider leaves the call; reading
  \<open>get_shortest_path\<close> off a missing graph is an \<open>AttributeError\<close>.
\<close>

definition calculate_path :: "path_search \<Rightarrow> Robot \<Rightarrow> py_error + Robot" where
  "calculate_path search r =
     (case destination r of
        None \<Rightarrow> Inr r
      | Some d \<Rightarrow>
          (case nav_graph r of
             None \<Rightarrow> Inl AttributeError
           | Some ng \<Rightarrow>
               (case get_shortest_path search ng (current_vertex r) d of
                  Inl e \<Rightarrow> Inl e
                | Inr p \<Rightarrow>
                    Inr (if p = [] then r\<lparr>path := p, status := ''error''\<rparr>
                         else r\<lparr>path := p\<rparr>))))"

definition Robot_assign_task :: "path_search \<Rightarrow> Robot \<Rightarrow> int \<Rightarrow> py_error + (bool \<times> Robot)" where
  "Robot_assign_task search r destination_idx =
     (if status r = ''charging'' \<or> status r = ''error'' then
        Inr (False, log_msg r (CannotAssign (status r)))
      else
        (case calculate_path search (r\<lparr>destination := Some destination_idx\<rparr>) of
           Inl e \<Rightarrow> Inl e
         | Inr r1 \<Rightarrow>
             if path r1 = [] then Inr (False, log_msg r1 (NoValidPath destination_idx))
             else
               Inr (True,
                    log_msg
                      (r1\<lparr>progress := 0.0, current_lane := None, status := ''moving'',
                          wait_start_time := None\<rparr>)
                      (Assigned destination_idx (path r1)))))"

definition check_imminent_collision :: "Robot \<Rightarrow> TrafficManager \<Rightarrow> real \<Rightarrow> bool" where
  "check_imminent_collision r tm delta_time =
     (case current_lane r of
        None \<Rightarrow> False
      | Some held \<Rightarrow>
          (case path r of
             v0 # v1 # rest \<Rightarrow>
               (let next_lane = (v0, v1);
                    progress_in_1sec = progress r + movement_speed (config r) * delta_time
                in if progress_in_1sec \<ge> 1.0 then is_lane_occupied tm next_lane else False)
           | _ \<Rightarrow> False))"

text \<open>The part of \<open>_handle_movement\<close> after the lane is held (\<open># Perform movement\<close>).\<close>

definition perform_movement ::
  "Robot \<Rightarrow> TrafficManager \<Rightarrow> int \<Rightarrow> real \<Rightarrow> bool \<times> Robot \<times> TrafficManager" where
  "perform_movement r tm next_vertex delta_time =
     (let r1 = r\<lparr>progress := progress r + delta_time * movement_speed (config r)\<rparr> in
      if progress r1 \<ge> 1.0 then
        (let r2 = r1\<lparr>current_vertex := next_vertex, path := tl (path r1), progress := 0.0\<rparr>;
             tm1 = (case current_lane r2 of None \<Rightarrow> tm | Some held \<Rightarrow> release_lane tm held);
             r3 = r2\<lparr>current_lane := None\<rparr>
         in (True, if path r3 = [] then r3\<lparr>status := ''idle''\<rparr> else r3, tm1))
      else
        (True,
         r1\<lparr>battery := max 0 (battery r1 - battery_drain_rate (config r1) * delta_time)\<rparr>,
         tm))"

definition handle_movement ::
  "Robot \<Rightarrow> TrafficManager \<Rightarrow> real \<Rightarrow> real \<Rightarrow> bool \<times> Robot \<times> TrafficManager" where
  "handle_movement r tm delta_time now =
     (case path r of
        [] \<Rightarrow> (False, log_msg r MovementFailed, tm)
      | next_vertex # rest \<Rightarrow>
          (let lane = (current_vertex r, next_vertex) in
           if current_lane r \<noteq> Some lane then
             (case request_lane tm (id_robot r) lane now of
                (True, tm1) \<Rightarrow>
                  perform_movement (r\<lparr>current_lane := Some lane, progress := 0.0\<rparr>) tm1
                    next_vertex delta_time
              | (False, tm1) \<Rightarrow>
                  (False,
                   if status r \<noteq> ''waiting''
                   then r\<lparr>wait_start_time := Some now, status := ''waiting''\<rparr>
                   else r,
                   tm1))
           else perform_movement r tm next_vertex delta_time))"

text \<open>
  \<open>_handle_waiting\<close>: \<open>self.wait_start_time and \<dots>\<close> is false for \<open>None\<close> and for \<open>0.0\<close>.
\<close>

definition handle_waiting :: "path_search \<Rightarrow> Robot \<Rightarrow> real \<Rightarrow> py_error + (bool \<times> Robot)" where
  "handle_waiting search r current_time =
     (case wait_start_time r of
        None \<Rightarrow> Inr (False, r)
      | Some w \<Rightarrow>
          if w \<noteq> 0 \<and> current_time - w > max_wait_time (config r) then
            (case calculate_path search r of
               Inl e \<Rightarrow> Inl e
             | Inr r1 \<Rightarrow> Inr (True, log_msg (r1\<lparr>status := ''moving''\<rparr>) Replanning))
          else Inr (False, r))"

text \<open>
  \<open>Robot.update\<close>. The class defines neither \<open>_handle_charging\<close> nor
  \<open>_handle_low_battery\<close>: reaching either call is an \<open>AttributeError\<close>. The clock readings
  of one tick are the one value \<open>now\<close>.
\<close>

definition Robot_update ::
  "path_search \<Rightarrow> Robot \<Rightarrow> TrafficManager \<Rightarrow> real \<Rightarrow> real \<Rightarrow>
   py_error + (bool \<times> Robot \<times> TrafficManager)" where
  "Robot_update search r tm delta_time now =
     (let r0 = (if check_imminent_collision r tm delta_time
                then r\<lparr>status := ''emergency_stop''\<rparr> else r) in
      if status r0 = ''charging'' then Inl AttributeError
      else if status r0 = ''error'' then Inr (False, r0\<lparr>last_update_time := now\<rparr>, tm)
      else if battery r0 < min_battery (config r0) then Inl AttributeError
      else if status r0 = ''moving'' then
        (case handle_movement r0 tm delta_time now of
           (changed, r1, tm1) \<Rightarrow>
             (let r2 = (if check_imminent_collision r1 tm1 delta_time
                        then r1\<lparr>status := ''emergency_stop''\<rparr> else r1)
              in Inr (changed, r2\<lparr>last_update_time := now\<rparr>, tm1)))
      else if status r0 = ''waiting'' then
        (case handle_waiting search r0 now of
           Inl e \<Rightarrow> Inl e
         | Inr (changed, r1) \<Rightarrow> Inr (changed, r1\<lparr>last_update_time := now\<rparr>, tm))
      else Inr (False, r0\<lparr>last_update_time := now\<rparr>, tm))"

section \<open>The fleet: \<open>controllers/fleet_manager.py\<close>\<close>

datatype fleet_msg =
    RobotNotFound int
  | RobotCharging int real
  | NoNavGraph
  | NoValidPathTo int
  | AssignmentSucceeded
  | AssignmentFailed

text \<open>The dictionary \<open>assign_task\<close> returns; its key \<open>'path'\<close> is the field \<open>path_found\<close>.\<close>

record AssignResult =
  success :: bool
  message :: fleet_msg
  estimated_time :: real
  path_found :: "int list"

record FleetManager =
  robots :: "Robot list"
  traffic_manager :: TrafficManager
  selected_robot :: "int option"
  next_id :: int

definition init_FleetManager :: "TrafficManager \<Rightarrow> FleetManager" where
  "init_FleetManager tm =
     \<lparr>robots = [], traffic_manager = tm, selected_robot = None, next_id = 1\<rparr>"

definition spawn_robot :: "FleetManager \<Rightarrow> int \<Rightarrow> NavGraph option \<Rightarrow> real \<Rightarrow> Robot \<times> FleetManager" where
  "spawn_robot fm vertex_idx ng now =
     (let robot = init_Robot (next_id fm) vertex_idx ng default_RobotConfig now
      in (robot, fm\<lparr>robots := robots fm @ [robot], next_id := next_id fm + 1\<rparr>))"

definition get_robot :: "FleetManager \<Rightarrow> int \<Rightarrow> Robot option" where
  "get_robot fm robot_id = find (\<lambda>r. id_robot r = robot_id) (robots fm)"

text \<open>
  A robot is an object shared with the list: a change to the robot \<open>get_robot\<close> returned
  is a change to the first list entry with that id.
\<close>

fun store_robot :: "Robot \<Rightarrow> Robot list \<Rightarrow> Robot list" where
  "store_robot r' [] = []"
| "store_robot r' (r # rs) =
     (if id_robot r = id_robot r' then r' # rs else r # store_robot r' rs)"

definition rejected :: "fleet_msg \<Rightarrow> AssignResult" where
  "rejected m = \<lparr>success = False, message = m, estimated_time = 0, path_found = []\<rparr>"

definition FleetManager_assign_task ::
  "path_search \<Rightarrow> FleetManager \<Rightarrow> int \<Rightarrow> int \<Rightarrow> py_error + (AssignResult \<times> FleetManager)" where
  "FleetManager_assign_task search fm robot_id destination_idx =
     (case get_robot fm robot_id of
        None \<Rightarrow> Inr (rejected (RobotNotFound robot_id), fm)
      | Some robot \<Rightarrow>
          if status robot = ''charging'' then
            Inr (rejected (RobotCharging robot_id (battery robot)), fm)
          else
            (case nav_graph robot of
               None \<Rightarrow> Inr (rejected NoNavGraph, fm)
             | Some ng \<Rightarrow>
                 (case get_shortest_path search ng (current_vertex robot) destination_idx of
                    Inl e \<Rightarrow> Inl e
                  | Inr p \<Rightarrow>
                      if p = [] then Inr (rejected (NoValidPathTo destination_idx), fm)
                      else
                        (case Robot_assign_task search robot destination_idx of
                           Inl e \<Rightarrow> Inl e
                         | Inr (ok, robot') \<Rightarrow>
                             Inr (\<lparr>success = ok,
                                   message = (if ok then AssignmentSucceeded
                                              else AssignmentFailed),
                                   estimated_time = real (length p) * 1.0,
                                   path_found = p\<rparr>,
                                  fm\<lparr>robots := store_robot robot' (robots fm)\<rparr>)))))"

text \<open>\<open>update_robots\<close>: every robot ticks once, in list order, on the shared arbiter.\<close>

fun update_robots_loop ::
  "path_search \<Rightarrow> Robot list \<Rightarrow> TrafficManager \<Rightarrow> real \<Rightarrow> real \<Rightarrow>
   py_error + (Robot list \<times> TrafficManager)" where
  "update_robots_loop search [] tm delta_time now = Inr ([], tm)"
| "update_robots_loop search (r # rs) tm delta_time now =
     (case Robot_update search r tm delta_time now of
        Inl e \<Rightarrow> Inl e
      | Inr (changed, r', tm1) \<Rightarrow>
          (case update_robots_loop search rs tm1 delta_time now of
             Inl e \<Rightarrow> Inl e
           | Inr (rs', tm2) \<Rightarrow> Inr (r' # rs', tm2)))"

definition update_robots ::
  "path_search \<Rightarrow> FleetManager \<Rightarrow> real \<Rightarrow> real \<Rightarrow> py_error + FleetManager" where
  "update_robots search fm delta_time now =
     (case update_robots_loop search (robots fm) (traffic_manager fm) delta_time now of
        Inl e \<Rightarrow> Inl e
      | Inr (rs', tm') \<Rightarrow> Inr (fm\<lparr>robots := rs', traffic_manager := tm'\<rparr>))"

section \<open>Concrete scenarios\<close>

text \<open>
  The states used by the closed examples: a graph with the two lanes \<open>0 \<rightarrow> 1\<close> and
  \<open>2 \<rightarrow> 3\<close> (so vertex 3 cannot be reached from vertex 0, and 7 is no vertex at all),
  and arbiters and fleets built from the initial ones by the operations above.
\<close>

definition demo_graph :: NavGraph where
  "demo_graph = \<lparr>vertices = [(0, 0, False), (1, 0, False), (2, 0, False), (3, 0, True)],
                 lanes = [(0, 1), (2, 3)], graph_edges = [(0, 1), (2, 3)]\<rparr>"

subsection \<open>A robot at vertex 0 with a task to vertex 1\<close>

definition demo_spawned :: FleetManager where
  "demo_spawned =
     snd (spawn_robot (init_FleetManager (init_TrafficManager 0)) 0 (Some demo_graph) 0)"

definition demo_assigned :: FleetManager where
  "demo_assigned =
     \<lparr>robots = [(init_Robot 1 0 (Some demo_graph) default_RobotConfig 0)
                  \<lparr>destination := Some 1, path := [0, 1], status := ''moving'',
                   log_robot := [Assigned 1 [0, 1]]\<rparr>],
      traffic_manager = init_TrafficManager 0, selected_robot = None, next_id = 2\<rparr>"

text \<open>The fleet after a first tick of half a second at time 1.\<close>

definition demo_half_tick :: FleetManager where
  "demo_half_tick =
     \<lparr>robots = [(init_Robot 1 0 (Some demo_graph) default_RobotConfig 0)
                  \<lparr>destination := Some 1, path := [0, 1], status := ''moving'',
                   battery := 99.75, last_update_time := 1,
                   current_lane := Some (0, 0), progress := 1/2,
                   log_robot := [Assigned 1 [0, 1]]\<rparr>],
      traffic_manager =
        \<lparr>occupied_lanes = [((0, 0), 1)], waiting_queues = [],
         occupation_timestamps = [((0, 0), 1)], last_deadlock_check = 0, event_log = []\<rparr>,
      selected_robot = None, next_id = 2\<rparr>"

subsection \<open>Two opposite requests\<close>

definition c2_state0 :: TrafficManager where
  "c2_state0 = init_TrafficManager 0"

definition c2_state1 :: TrafficManager where
  "c2_state1 = snd (request_lane c2_state0 1 (0, 1) 0)"

definition c2_state2 :: TrafficManager where
  "c2_state2 = snd (request_lane c2_state1 2 (reverse_lane (0, 1)) 0)"

subsection \<open>A queued robot that is granted another lane\<close>

definition c3_state :: TrafficManager where
  "c3_state = run_ops [RequestLane 1 (0, 1) 0, RequestLane 2 (0, 1) 1] (init_TrafficManager 0)"

subsection \<open>A free lane with a waiter left in its queue\<close>

definition c4_state :: TrafficManager where
  "c4_state =
     run_ops [RequestLane 1 (0, 1) 0, RequestLane 2 (0, 1) 1, RequestLane 3 (0, 1) 2,
              ReleaseLane (0, 1)] (init_TrafficManager 0)"

subsection \<open>A robot on lane \<open>(0, 1)\<close> that is given a new task\<close>

text \<open>Task to vertex 1, one tick of a second at time 1, one tick of half a second at time 2.\<close>

definition c5_run :: "py_error + FleetManager" where
  "c5_run =
     (case FleetManager_assign_task one_hop_search demo_spawned 1 1 of
        Inl e \<Rightarrow> Inl e
      | Inr (res, fm) \<Rightarrow>
          (case update_robots one_hop_search fm 1 1 of
             Inl e \<Rightarrow> Inl e
           | Inr fm' \<Rightarrow> update_robots one_hop_search fm' (1/2) 2))"

definition c5_hop :: FleetManager where
  "c5_hop =
     \<lparr>robots = [(init_Robot 1 0 (Some demo_graph) default_RobotConfig 0)
                  \<lparr>destination := Some 1, path := [1], status := ''moving'',
                   last_update_time := 1, log_robot := [Assigned 1 [0, 1]]\<rparr>],
      traffic_manager = init_TrafficManager 0, selected_robot = None, next_id = 2\<rparr>"

definition c5_robot :: Robot where
  "c5_robot =
     \<lparr>id_robot = 1, current_vertex = 0, destination = Some 1, path = [1], status = ''moving'',
      battery = 99.75, last_update_time = 2, wait_start_time = None,
      config = default_RobotConfig, nav_graph = Some demo_graph, color = (50, 100, 150),
      current_lane = Some (0, 1), progress = 1/2, log_robot = [Assigned 1 [0, 1]]\<rparr>"

definition c5_moving :: FleetManager where
  "c5_moving =
     \<lparr>robots = [c5_robot],
      traffic_manager =
        \<lparr>occupied_lanes = [((0, 1), 1)], waiting_queues = [],
         occupation_timestamps = [((0, 1), 2)], last_deadlock_check = 0, event_log = []\<rparr>,
      selected_robot = None, next_id = 2\<rparr>"

definition c5_after :: FleetManager where
  "c5_after =
     c5_moving\<lparr>robots :=
       [c5_robot\<lparr>destination := Some 0, path := [0], progress := 0, current_lane := None,
                 log_robot := [Assigned 1 [0, 1], Assigned 0 [0]]\<rparr>]\<rparr>"

subsection \<open>An idle robot and a destination it cannot reach\<close>

definition c6_fleet :: FleetManager where
  "c6_fleet =
     snd (spawn_robot (init_FleetManager (init_TrafficManager 0)) 0 (Some demo_graph) 0)"

subsection \<open>A reservation nobody releases, and three fleet ticks\<close>

definition c7_arbiter :: TrafficManager where
  "c7_arbiter = snd (request_lane (init_TrafficManager 0) 7 (0, 1) 0)"

definition c7_fleet :: FleetManager where
  "c7_fleet = snd (spawn_robot (init_FleetManager c7_arbiter) 2 (Some demo_graph) 0)"

definition c7_ticks :: "py_error + FleetManager" where
  "c7_ticks =
     (case update_robots one_hop_search c7_fleet 3 3 of
        Inl e \<Rightarrow> Inl e
      | Inr fm1 \<Rightarrow>
          (case update_robots one_hop_search fm1 3 6 of
             Inl e \<Rightarrow> Inl e
           | Inr fm2 \<Rightarrow> update_robots one_hop_search fm2 3 9))"

definition c7_final :: FleetManager where
  "c7_final =
     \<lparr>robots = [(init_Robot 1 2 (Some demo_graph) default_RobotConfig 0)
                  \<lparr>last_update_time := 9\<rparr>],
      traffic_manager = c7_arbiter, selected_robot = None, next_id = 2\<rparr>"

subsection \<open>A waiting robot whose destination cannot be reached\<close>

definition c8_robot :: Robot where
  "c8_robot =
     (init_Robot 1 0 (Some demo_graph) default_RobotConfig 0)
       \<lparr>destination := Some 3, path := [0, 1], status := ''waiting'',
        wait_start_time := Some 1\<rparr>"

subsection \<open>A destination that is no vertex of the graph\<close>

definition c9_fleet :: FleetManager where
  "c9_fleet =
     snd (spawn_robot (init_FleetManager (init_TrafficManager 0)) 0 (Some demo_graph) 0)"

subsection \<open>Charging and low-battery robots\<close>

definition c10_robot :: Robot where
  "c10_robot =
     (init_Robot 1 0 (Some demo_graph) default_RobotConfig 0)
       \<lparr>status := ''charging'', current_lane := Some (0, 1), path := [2, 3],
        progress := 1/2\<rparr>"

definition c10_arbiter :: TrafficManager where
  "c10_arbiter = snd (request_lane (init_TrafficManager 0) 2 (2, 3) 0)"

definition c10_charging :: Robot where
  "c10_charging =
     (init_Robot 1 0 (Some demo_graph) default_RobotConfig 0)\<lparr>status := ''charging''\<rparr>"

definition c10_low :: Robot where
  "c10_low =
     (init_Robot 1 0 (Some demo_graph) default_RobotConfig 0)
       \<lparr>status := ''moving'', battery := 10\<rparr>"

subsection \<open>The invariant of the reserved lanes\<close>

definition reserved_keys :: "TrafficManager \<Rightarrow> lane set" where
  "reserved_keys tm = set (map fst (occupied_lanes tm))"

definition mutex_inv :: "TrafficManager \<Rightarrow> bool" where
  "mutex_inv tm \<longleftrightarrow>
     (\<forall>l \<in> reserved_keys tm. reverse_lane l \<in> reserved_keys tm \<longrightarrow> fst l = snd l)"

section \<open>Facts about the scenarios\<close>

lemma demo_nodes: "graph_nodes (graph_edges demo_graph) = {0, 1, 2, 3}"
  by (auto simp: graph_nodes_def demo_graph_def)

lemma demo_path_0_1: "get_shortest_path one_hop_search demo_graph 0 1 = Inr [0, 1]"
  by (simp add: get_shortest_path_def astar_path_def demo_nodes one_hop_search_def)
     (simp add: demo_graph_def)

lemma demo_path_0_0: "get_shortest_path one_hop_search demo_graph 0 0 = Inr [0]"
  by (simp add: get_shortest_path_def astar_path_def demo_nodes one_hop_search_def)

lemma demo_path_0_3: "get_shortest_path one_hop_search demo_graph 0 3 = Inr []"
  by (simp add: get_shortest_path_def astar_path_def demo_nodes one_hop_search_def)
     (simp add: demo_graph_def)

lemma demo_path_0_7: "get_shortest_path search demo_graph 0 7 = Inl NodeNotFound"
  by (simp add: get_shortest_path_def astar_path_def demo_nodes)

lemma demo_spawned_eq:
  "demo_spawned = \<lparr>robots = [init_Robot 1 0 (Some demo_graph) default_RobotConfig 0],
      traffic_manager = init_TrafficManager 0, selected_robot = None, next_id = 2\<rparr>"
  by (simp add: demo_spawned_def spawn_robot_def Let_def init_FleetManager_def)

lemma demo_assign_step:
  "FleetManager_assign_task one_hop_search demo_spawned 1 1 =
     Inr (\<lparr>success = True, message = AssignmentSucceeded, estimated_time = 2,
           path_found = [0, 1]\<rparr>, demo_assigned)"
  unfolding demo_spawned_eq demo_assigned_def
  by (simp add: FleetManager_assign_task_def get_robot_def init_Robot_def demo_path_0_1
      Robot_assign_task_def calculate_path_def log_msg_def)

lemma demo_half_tick_step: "update_robots one_hop_search demo_assigned (1/2) 1 = Inr demo_half_tick"
  unfolding demo_assigned_def demo_half_tick_def
  by (simp add: update_robots_def Robot_update_def check_imminent_collision_def init_Robot_def
      default_RobotConfig_def handle_movement_def request_lane_def detect_collisions_def
      init_TrafficManager_def reverse_lane_def perform_movement_def Let_def
      is_lane_occupied_def)

section \<open>Facts about the arbiter\<close>

lemma keys_delete: "fst ` set (AList.delete k al) = fst ` set al - {k}"
proof -
  have "set (map fst (AList.delete k al)) = set (removeAll k (map fst al))"
    by (simp only: delete_keys)
  then show ?thesis by simp
qed

lemma keys_update: "fst ` set (AList.update k v al) = insert k (fst ` set al)"
  by (simp add: dom_update)

lemma reverse_lane_self: "reverse_lane l = l \<longleftrightarrow> fst l = snd l"
  by (cases l) (auto simp: reverse_lane_def)

lemma reverse_lane_involution: "reverse_lane (reverse_lane l) = l"
  by (simp add: reverse_lane_def)

lemma reserved_log_event [simp]: "reserved_keys (log_event tm e r l) = reserved_keys tm"
  by (simp add: reserved_keys_def log_event_def)

lemma reserved_release_lane: "reserved_keys (release_lane tm l) = reserved_keys tm - {l}"
  by (simp add: reserved_keys_def release_lane_def Let_def keys_delete
      split: option.splits list.splits)

lemma reserved_fold_release:
  "reserved_keys (fold (\<lambda>lane s. release_lane s lane) ls tm) = reserved_keys tm - set ls"
  by (induction ls arbitrary: tm) (auto simp: reserved_release_lane)

lemma reserved_periodic:
  "reserved_keys (perform_periodic_checks tm now) \<subseteq> reserved_keys tm"
proof -
  have "reserved_keys (tm\<lparr>last_deadlock_check := now\<rparr>) = reserved_keys tm"
    by (simp add: reserved_keys_def)
  then show ?thesis
    by (auto simp: perform_periodic_checks_def Let_def reserved_fold_release)
qed

lemma reserved_resolve_issues_loop:
  "reserved_keys (snd (resolve_issues_loop ls tm)) \<subseteq> reserved_keys tm"
proof (induction ls arbitrary: tm)
  case Nil
  then show ?case by simp
next
  case (Cons l ls)
  show ?case
  proof (cases "map_of (occupied_lanes tm) l")
    case None
    then show ?thesis by simp
  next
    case (Some owner)
    have "reserved_keys (snd (resolve_issues_loop ls
              (release_lane (log_event tm TIMEOUT owner l) l)))
            \<subseteq> reserved_keys (release_lane (log_event tm TIMEOUT owner l) l)"
      by (rule Cons.IH)
    also have "\<dots> \<subseteq> reserved_keys tm"
      by (simp add: reserved_release_lane)
    finally show ?thesis using Some by simp
  qed
qed

lemma reserved_resolve_deadlocks_loop:
  "reserved_keys (snd (resolve_deadlocks_loop ls now tm)) \<subseteq> reserved_keys tm"
proof (induction ls arbitrary: tm)
  case Nil
  then show ?case by simp
next
  case (Cons l ls)
  let ?stale =
    "now - (case map_of (occupation_timestamps tm) l of None \<Rightarrow> 0 | Some ts \<Rightarrow> ts) > 5"
  show ?case
  proof (cases ?stale)
    case False
    then show ?thesis using Cons.IH [of tm] by simp
  next
    case True
    show ?thesis
    proof (cases "map_of (occupied_lanes (release_lane tm l)) l")
      case None
      then show ?thesis using True by (simp add: Let_def reserved_release_lane)
    next
      case (Some owner)
      have "reserved_keys (snd (resolve_deadlocks_loop ls now
               (log_event (release_lane tm l) TIMEOUT owner l)))
            \<subseteq> reserved_keys (log_event (release_lane tm l) TIMEOUT owner l)"
        by (rule Cons.IH)
      also have "\<dots> \<subseteq> reserved_keys tm"
        by (simp add: reserved_release_lane)
      finally show ?thesis using True Some by (simp add: Let_def)
    qed
  qed
qed

lemma reserved_request_lane:
  "reserved_keys (snd (request_lane tm r l now)) =
     (if is_lane_available tm l then insert l (reserved_keys tm) else reserved_keys tm)"
  by (simp add: request_lane_def detect_collisions_def is_lane_available_def Let_def
      reserved_keys_def keys_update log_event_def)

lemma mutex_inv_subset:
  "mutex_inv tm \<Longrightarrow> reserved_keys tm' \<subseteq> reserved_keys tm \<Longrightarrow> mutex_inv tm'"
  unfolding mutex_inv_def by blast

lemma mutex_inv_apply_op: "mutex_inv tm \<Longrightarrow> mutex_inv (apply_op op tm)"
proof (cases op)
  case (RequestLane r l now)
  assume inv: "mutex_inv tm"
  show ?thesis
  proof (cases "is_lane_available tm l")
    case True
    then have rk: "reserved_keys (apply_op op tm) = insert l (reserved_keys tm)"
      using RequestLane by (simp add: reserved_request_lane)
    from True have nl: "l \<notin> reserved_keys tm" and nr: "reverse_lane l \<notin> reserved_keys tm"
      by (simp_all add: is_lane_available_def reserved_keys_def)
    show ?thesis unfolding mutex_inv_def rk
    proof (intro ballI impI)
      fix k assume k: "k \<in> insert l (reserved_keys tm)"
        and rk': "reverse_lane k \<in> insert l (reserved_keys tm)"
      show "fst k = snd k"
      proof (cases "k = l")
        case True
        with rk' nr have "reverse_lane l = l" by auto
        then show ?thesis unfolding True by (simp only: reverse_lane_self)
      next
        case False
        with k have kin: "k \<in> reserved_keys tm" by simp
        show ?thesis
        proof (cases "reverse_lane k = l")
          case True
          then have "reverse_lane l = k" using reverse_lane_involution [of k] by simp
          with kin nr show ?thesis by simp
        next
          case False
          with rk' have "reverse_lane k \<in> reserved_keys tm" by simp
          with inv kin show ?thesis unfolding mutex_inv_def by blast
        qed
      qed
    qed
  next
    case False
    then have "reserved_keys (apply_op op tm) = reserved_keys tm"
      using RequestLane by (simp add: reserved_request_lane)
    with inv show ?thesis by (simp add: mutex_inv_def)
  qed
next
  case (ReleaseLane l)
  assume "mutex_inv tm"
  then show ?thesis using ReleaseLane
    by (simp add: mutex_inv_subset [where tm = tm] reserved_release_lane)
next
  case (PeriodicChecks now)
  assume "mutex_inv tm"
  then show ?thesis using PeriodicChecks
    by (simp add: mutex_inv_subset [OF _ reserved_periodic])
next
  case (ResolveIssues now)
  assume "mutex_inv tm"
  then show ?thesis using ResolveIssues
    by (simp add: resolve_issues_def mutex_inv_subset [OF _ reserved_resolve_issues_loop])
next
  case (ResolveDeadlocks now)
  assume "mutex_inv tm"
  then show ?thesis using ResolveDeadlocks
    by (simp add: resolve_deadlocks_def
        mutex_inv_subset [OF _ reserved_resolve_deadlocks_loop])
qed

lemma mutex_inv_run_ops: "mutex_inv tm \<Longrightarrow> mutex_inv (run_ops ops tm)"
  unfolding run_ops_def by (induction ops arbitrary: tm) (simp_all add: mutex_inv_apply_op)

lemma mutex_inv_init: "mutex_inv (init_TrafficManager t0)"
  by (simp add: mutex_inv_def reserved_keys_def init_TrafficManager_def)

subsection \<open>Mutual exclusion of a lane and its reverse\<close>

text \<open>
  Claim C1, as the code has it: in every arbiter state reached from the empty one by any
  sequence of \<open>request_lane\<close>, \<open>release_lane\<close> and stale-reclamation calls
  (\<open>_perform_periodic_checks\<close>, \<open>_resolve_issues\<close>, \<open>resolve_deadlocks\<close>), a reserved lane
  whose two end points differ has an unreserved reverse.
\<close>

theorem bidirectional_mutex_distinct_ends:
  "is_lane_occupied (run_ops ops (init_TrafficManager t0)) L \<Longrightarrow> fst L \<noteq> snd L \<Longrightarrow>
   \<not> is_lane_occupied (run_ops ops (init_TrafficManager t0)) (reverse_lane L)"
  using mutex_inv_run_ops [OF mutex_inv_init, of ops t0]
  unfolding mutex_inv_def is_lane_occupied_def reserved_keys_def by blast

text \<open>
  Claim C1 as stated fails for a lane from a vertex to itself: \<open>request_lane\<close> grants
  \<open>(0, 0)\<close> on the empty arbiter, and that lane is its own reverse. The fleet makes
  such requests itself: the path of a new task starts at the robot's own vertex, so the
  first tick after the task to vertex 1 reserves \<open>(0, 0)\<close> for the robot at vertex 0.
\<close>

theorem self_loop_lane_reserved_with_reverse:
  "is_lane_occupied (run_ops [RequestLane 1 (0, 0) 0] (init_TrafficManager 0)) (0, 0) \<and>
   is_lane_occupied (run_ops [RequestLane 1 (0, 0) 0] (init_TrafficManager 0))
     (reverse_lane (0, 0)) \<and>
   FleetManager_assign_task one_hop_search demo_spawned 1 1 =
     Inr (\<lparr>success = True, message = AssignmentSucceeded, estimated_time = 2,
           path_found = [0, 1]\<rparr>, demo_assigned) \<and>
   update_robots one_hop_search demo_assigned (1/2) 1 = Inr demo_half_tick \<and>
   is_lane_occupied (traffic_manager demo_half_tick) (0, 0) \<and>
   is_lane_occupied (traffic_manager demo_half_tick) (reverse_lane (0, 0))"
  by (simp add: demo_assign_step demo_half_tick_step)
     (simp add: run_ops_def request_lane_def detect_collisions_def init_TrafficManager_def
      is_lane_occupied_def reverse_lane_def demo_half_tick_def)

text \<open>The mutual exclusion theorem at the arbiter that granted lane \<open>(0, 1)\<close>.\<close>

theorem bidirectional_mutex_witness:
  "is_lane_occupied (run_ops [RequestLane 1 (0, 1) 0] (init_TrafficManager 0)) (0, 1) \<and>
   fst ((0, 1)::lane) \<noteq> snd ((0, 1)::lane) \<and>
   \<not> is_lane_occupied (run_ops [RequestLane 1 (0, 1) 0] (init_TrafficManager 0))
       (reverse_lane (0, 1))"
proof -
  have a: "is_lane_occupied (run_ops [RequestLane 1 (0, 1) 0] (init_TrafficManager 0)) (0, 1)"
    by (simp add: run_ops_def request_lane_def detect_collisions_def init_TrafficManager_def
      is_lane_occupied_def reverse_lane_def)
  have b: "fst ((0, 1)::lane) \<noteq> snd ((0, 1)::lane)" by simp
  from bidirectional_mutex_distinct_ends [OF a b] a b show ?thesis by simp
qed

subsection \<open>A request for the reverse of a lane just granted\<close>

lemma request_lane_granted:
  "is_lane_available tm L \<Longrightarrow>
   request_lane tm A L t1 =
     (True, tm\<lparr>occupied_lanes := AList.update L A (occupied_lanes tm),
              occupation_timestamps := AList.update L t1 (occupation_timestamps tm)\<rparr>)"
  by (simp add: request_lane_def detect_collisions_def is_lane_available_def)

lemma request_lane_blocked:
  "is_lane_occupied tm (reverse_lane l) \<Longrightarrow>
   request_lane tm r l now = (False, log_event tm BLOCKED r l)"
  by (simp add: request_lane_def detect_collisions_def is_lane_occupied_def)

lemma request_lane_distinct:
  "distinct (queue_of tm K) \<Longrightarrow> distinct (queue_of (snd (request_lane tm r l now)) K)"
proof (cases "detect_collisions tm (Some l) \<noteq> []")
  case True
  assume "distinct (queue_of tm K)"
  then show ?thesis using True by (simp add: request_lane_def queue_of_def log_event_def)
next
  case nc: False
  assume d: "distinct (queue_of tm K)"
  show ?thesis
  proof (cases "l \<notin> set (map fst (occupied_lanes tm)) \<and>
              reverse_lane l \<notin> set (map fst (occupied_lanes tm))")
    case True
    then show ?thesis using nc d by (simp add: request_lane_def queue_of_def)
  next
    case False
    show ?thesis
    proof (cases "map_of (waiting_queues tm) l")
      case None
      then have nk: "l \<notin> fst ` set (waiting_queues tm)"
        by (simp add: map_of_eq_None_iff)
      show ?thesis using nc False None nk d
        by (simp add: request_lane_def Let_def queue_of_def update_conv')
    next
      case (Some q)
      then have ik: "l \<in> fst ` set (waiting_queues tm)"
        by (metis map_of_eq_None_iff option.distinct(1))
      show ?thesis using nc False Some ik d
        by (auto simp: request_lane_def Let_def queue_of_def update_conv')
    qed
  qed
qed

lemma c2_state1_eq:
  "c2_state1 = \<lparr>occupied_lanes = [((0, 1), 1)], waiting_queues = [],
     occupation_timestamps = [((0, 1), 0)], last_deadlock_check = 0, event_log = []\<rparr>"
  by (simp add: c2_state1_def c2_state0_def init_TrafficManager_def request_lane_def
      detect_collisions_def reverse_lane_def)

text \<open>
  Claim C2, as the code has it: from a state where lane \<open>L\<close> and its reverse are free, the
  request of \<open>A\<close> for \<open>L\<close> is granted and the following request of \<open>B\<close> for the reverse is
  denied, so exactly one call returns true; the denied request is stopped by the
  collision check, logs a \<open>BLOCKED\<close> event and leaves every wait queue as it was
  (\<open>B\<close> is not enqueued). A request never puts a robot twice into a duplicate-free queue.
\<close>

theorem head_on_request_blocked_not_queued:
  assumes "is_lane_available tm L"
  shows "fst (request_lane tm A L t1) \<and>
         \<not> fst (request_lane (snd (request_lane tm A L t1)) B (reverse_lane L) t2) \<and>
         waiting_queues
           (snd (request_lane (snd (request_lane tm A L t1)) B (reverse_lane L) t2))
           = waiting_queues tm \<and>
         event_log (snd (request_lane (snd (request_lane tm A L t1)) B (reverse_lane L) t2))
           = event_log tm @ [(BLOCKED, B, reverse_lane L)] \<and>
         (distinct (queue_of tm K) \<longrightarrow>
            distinct (queue_of (snd (request_lane tm R K t3)) K))"
proof -
  let ?tm1 = "tm\<lparr>occupied_lanes := AList.update L A (occupied_lanes tm),
              occupation_timestamps := AList.update L t1 (occupation_timestamps tm)\<rparr>"
  have g: "request_lane tm A L t1 = (True, ?tm1)"
    using assms by (rule request_lane_granted)
  have "is_lane_occupied ?tm1 (reverse_lane (reverse_lane L))"
    by (simp add: is_lane_occupied_def keys_update reverse_lane_involution)
  then have b: "request_lane ?tm1 B (reverse_lane L) t2 =
      (False, log_event ?tm1 BLOCKED B (reverse_lane L))"
    by (rule request_lane_blocked)
  show ?thesis using g b request_lane_distinct [of tm K R K t3]
    by (simp add: log_event_def)
qed

text \<open>
  Claim C2 as stated fails in its second half: after robot 1 is granted \<open>(0, 1)\<close> and
  robot 2 is denied \<open>(1, 0)\<close>, robot 2 is not in the wait queue of \<open>(1, 0)\<close>.
\<close>

theorem head_on_loser_not_enqueued:
  "is_lane_available c2_state0 (0, 1) \<and> fst (request_lane c2_state0 1 (0, 1) 0) \<and>
   \<not> fst (request_lane c2_state1 2 (reverse_lane (0, 1)) 0) \<and>
   2 \<notin> set (queue_of c2_state2 (reverse_lane (0, 1)))"
  unfolding c2_state2_def c2_state1_eq
  by (simp add: c2_state0_def init_TrafficManager_def request_lane_def
      detect_collisions_def reverse_lane_def is_lane_available_def queue_of_def log_event_def)

text \<open>The head-on theorem at the empty arbiter, robots 1 and 2, lane \<open>(0, 1)\<close>.\<close>

theorem head_on_request_witness:
  "is_lane_available c2_state0 (0, 1) \<and>
   fst (request_lane c2_state0 1 (0, 1) 0) \<and>
   \<not> fst (request_lane (snd (request_lane c2_state0 1 (0, 1) 0)) 2 (reverse_lane (0, 1)) 0) \<and>
   waiting_queues
     (snd (request_lane (snd (request_lane c2_state0 1 (0, 1) 0)) 2 (reverse_lane (0, 1)) 0))
     = [] \<and>
   distinct (queue_of c2_state0 (0, 1)) \<and>
   distinct (queue_of (snd (request_lane c2_state0 1 (0, 1) 0)) (0, 1))"
proof -
  have a: "is_lane_available c2_state0 (0, 1)"
    by (simp add: c2_state0_def init_TrafficManager_def is_lane_available_def)
  have w: "waiting_queues c2_state0 = []"
    by (simp add: c2_state0_def init_TrafficManager_def)
  then have d: "distinct (queue_of c2_state0 (0, 1))"
    by (simp add: queue_of_def)
  from head_on_request_blocked_not_queued [OF a, of 1 0 2 0 "(0, 1)" 1 0] a w d
  show ?thesis by simp
qed

subsection \<open>A grant and the queues of the granted robot\<close>

lemma c3_state_eq:
  "c3_state = \<lparr>occupied_lanes = [((0, 1), 1)], waiting_queues = [((0, 1), [2])],
     occupation_timestamps = [((0, 1), 0)], last_deadlock_check = 0, event_log = []\<rparr>"
  by (simp add: c3_state_def run_ops_def init_TrafficManager_def request_lane_def
      detect_collisions_def reverse_lane_def)

text \<open>
  Claim C3 at a failing input: robot 2 waits for lane \<open>(0, 1)\<close>, held by robot 1, and then
  requests lane \<open>(2, 3)\<close>. The request is granted and robot 2 is still in the queue of
  \<open>(0, 1)\<close>; \<open>_grant_access\<close>, which \<open>request_lane\<close> does not call, would have removed it.
\<close>

theorem grant_keeps_pending_wait:
  "fst (request_lane c3_state 2 (2, 3) 2) \<and>
   2 \<in> set (queue_of (snd (request_lane c3_state 2 (2, 3) 2)) (0, 1)) \<and>
   2 \<notin> set (queue_of (grant_access c3_state 2 (2, 3) 2) (0, 1))"
  unfolding c3_state_eq
  by (simp add: request_lane_def detect_collisions_def reverse_lane_def queue_of_def
      grant_access_def remove_from_other_queues_def)

subsection \<open>Releasing a lane that is not reserved\<close>

lemma c4_state_eq:
  "c4_state = \<lparr>occupied_lanes = [], waiting_queues = [((0, 1), [3])],
     occupation_timestamps = [], last_deadlock_check = 0, event_log = []\<rparr>"
  by (simp add: c4_state_def run_ops_def init_TrafficManager_def request_lane_def
      detect_collisions_def reverse_lane_def release_lane_def)

text \<open>
  Claim C4, as the code has it: releasing a lane \<open>L\<close> that is not reserved leaves the
  reservation map, the time stamps, the time of the last check, the event log and the
  wait queue of every other lane unchanged; the wait queue of \<open>L\<close> itself loses its first
  robot, and the whole arbiter state is unchanged when that queue is empty.
\<close>

theorem release_unreserved_pops_queue_only:
  assumes "\<not> is_lane_occupied tm L"
  shows "occupied_lanes (release_lane tm L) = occupied_lanes tm \<and>
         occupation_timestamps (release_lane tm L) = occupation_timestamps tm \<and>
         last_deadlock_check (release_lane tm L) = last_deadlock_check tm \<and>
         event_log (release_lane tm L) = event_log tm \<and>
         (K \<noteq> L \<longrightarrow> queue_of (release_lane tm L) K = queue_of tm K) \<and>
         queue_of (release_lane tm L) L = drop 1 (queue_of tm L) \<and>
         (queue_of tm L = [] \<longrightarrow> release_lane tm L = tm)"
  using assms
  by (auto simp: release_lane_def is_lane_occupied_def queue_of_def update_conv'
      split: option.splits list.splits)

text \<open>
  Claim C4 as stated fails: lane \<open>(0, 1)\<close> is free and robot 3 waits for it; releasing
  the lane again empties its queue, so the arbiter state changes.
\<close>

theorem release_unreserved_changes_queue:
  "\<not> is_lane_occupied c4_state (0, 1) \<and>
   queue_of c4_state (0, 1) = [3] \<and> queue_of (release_lane c4_state (0, 1)) (0, 1) = [] \<and>
   release_lane c4_state (0, 1) \<noteq> c4_state"
  unfolding c4_state_eq
  by (simp add: is_lane_occupied_def queue_of_def release_lane_def)

text \<open>The release theorem at that state and at the empty arbiter.\<close>

theorem release_unreserved_witness:
  "\<not> is_lane_occupied c4_state (0, 1) \<and>
   queue_of (release_lane c4_state (0, 1)) (0, 1) = [] \<and>
   queue_of (release_lane c4_state (0, 1)) (5, 6) = [] \<and>
   \<not> is_lane_occupied (init_TrafficManager 0) (0, 1) \<and>
   queue_of (init_TrafficManager 0) (0, 1) = [] \<and>
   release_lane (init_TrafficManager 0) (0, 1) = init_TrafficManager 0"
proof -
  have a: "\<not> is_lane_occupied c4_state (0, 1)"
    unfolding c4_state_eq by (simp add: is_lane_occupied_def)
  have q: "queue_of c4_state (0, 1) = [3]" "queue_of c4_state (5, 6) = []"
    unfolding c4_state_eq by (simp_all add: queue_of_def)
  have b: "\<not> is_lane_occupied (init_TrafficManager 0) (0, 1)"
    by (simp add: is_lane_occupied_def init_TrafficManager_def)
  have q0: "queue_of (init_TrafficManager 0) (0, 1) = []"
    by (simp add: queue_of_def init_TrafficManager_def)
  from release_unreserved_pops_queue_only [OF a, of "(5, 6)"]
       release_unreserved_pops_queue_only [OF b, of "(0, 1)"] a b q q0
  show ?thesis by simp
qed

section \<open>Facts about the agents and the fleet\<close>

subsection \<open>A new task for a robot that holds a lane\<close>

lemma find_store_robot:
  "find (\<lambda>r. id_robot r = rid) rs = Some r \<Longrightarrow> id_robot r' = rid \<Longrightarrow>
   find (\<lambda>r. id_robot r = rid) (store_robot r' rs) = Some r'"
  by (induction rs) auto

lemma calculate_path_Some:
  "calculate_path search (r\<lparr>destination := Some d\<rparr>) = Inr r1 \<Longrightarrow> path r1 \<noteq> [] \<Longrightarrow>
   r1 = r\<lparr>destination := Some d, path := path r1\<rparr>"
  by (auto simp: calculate_path_def split: option.splits sum.splits if_splits)

lemma Robot_assign_task_success:
  assumes "Robot_assign_task search r d = Inr (True, r')"
  shows "\<exists>p. p \<noteq> [] \<and>
     r' = log_msg (r\<lparr>destination := Some d, path := p, progress := 0, current_lane := None,
                      status := ''moving'', wait_start_time := None\<rparr>) (Assigned d p)"
proof -
  from assms obtain r1 where c: "calculate_path search (r\<lparr>destination := Some d\<rparr>) = Inr r1"
    and ne: "path r1 \<noteq> []"
    and r': "r' = log_msg (r1\<lparr>progress := 0, current_lane := None, status := ''moving'',
                          wait_start_time := None\<rparr>) (Assigned d (path r1))"
    by (auto simp: Robot_assign_task_def split: if_splits sum.splits)
  from calculate_path_Some [OF c ne] have "r1 = r\<lparr>destination := Some d, path := path r1\<rparr>" .
  then have "r' = log_msg (r\<lparr>destination := Some d, path := path r1, progress := 0,
       current_lane := None, status := ''moving'', wait_start_time := None\<rparr>)
       (Assigned d (path r1))"
    using r' by metis
  with ne show ?thesis by blast
qed

lemma fleet_assign_success:
  assumes "FleetManager_assign_task search fm rid d = Inr (res, fm')" "success res"
    and "get_robot fm rid = Some r"
  shows "\<exists>r'. Robot_assign_task search r d = Inr (True, r') \<and>
     fm' = fm\<lparr>robots := store_robot r' (robots fm)\<rparr>"
  using assms
  by (auto simp: FleetManager_assign_task_def rejected_def
      split: option.splits if_splits sum.splits prod.splits)

lemma c5_step2: "update_robots one_hop_search demo_assigned 1 1 = Inr c5_hop"
  unfolding demo_assigned_def c5_hop_def
  by (simp add: update_robots_def Robot_update_def check_imminent_collision_def init_Robot_def
      default_RobotConfig_def handle_movement_def request_lane_def detect_collisions_def
      init_TrafficManager_def reverse_lane_def perform_movement_def release_lane_def Let_def)

lemma c5_step3: "update_robots one_hop_search c5_hop (1/2) 2 = Inr c5_moving"
  unfolding c5_hop_def c5_moving_def c5_robot_def
  by (simp add: update_robots_def Robot_update_def check_imminent_collision_def init_Robot_def
      default_RobotConfig_def handle_movement_def request_lane_def detect_collisions_def
      init_TrafficManager_def reverse_lane_def perform_movement_def release_lane_def Let_def
      generate_color_def)

lemma c5_run_eq: "c5_run = Inr c5_moving"
  by (simp add: c5_run_def demo_assign_step c5_step2 c5_step3)

lemma c5_reassign:
  "FleetManager_assign_task one_hop_search c5_moving 1 0 =
     Inr (\<lparr>success = True, message = AssignmentSucceeded, estimated_time = 1,
           path_found = [0]\<rparr>, c5_after)"
  unfolding c5_after_def c5_moving_def c5_robot_def
  by (simp add: FleetManager_assign_task_def get_robot_def demo_path_0_0
      Robot_assign_task_def calculate_path_def log_msg_def)

text \<open>
  Claim C5, as the code has it: a successful \<open>assign_task\<close> for a moving robot that holds
  lane \<open>L\<close> clears the robot's own \<open>current_lane\<close>, resets its progress and the start of
  its wait and sets the new destination, and it makes no call to the arbiter: the
  arbiter state is the same after the call, and \<open>L\<close> is still reserved for that robot.
\<close>

theorem reassignment_keeps_reservation:
  assumes "get_robot fm rid = Some r" and "status r = ''moving''"
    and "current_lane r = Some L"
    and "map_of (occupied_lanes (traffic_manager fm)) L = Some rid"
    and "FleetManager_assign_task search fm rid d = Inr (res, fm')" and "success res"
  shows "traffic_manager fm' = traffic_manager fm \<and>
         map_of (occupied_lanes (traffic_manager fm')) L = Some rid \<and>
         (case get_robot fm' rid of
            None \<Rightarrow> False
          | Some r' \<Rightarrow> current_lane r' = None \<and> status r' = ''moving'' \<and> progress r' = 0 \<and>
              wait_start_time r' = None \<and> destination r' = Some d)"
proof -
  from fleet_assign_success [OF assms(5,6,1)] obtain r' where
    a: "Robot_assign_task search r d = Inr (True, r')" and
    f: "fm' = fm\<lparr>robots := store_robot r' (robots fm)\<rparr>" by blast
  from Robot_assign_task_success [OF a] obtain p where
    r': "r' = log_msg (r\<lparr>destination := Some d, path := p, progress := 0,
                      current_lane := None, status := ''moving'',
                      wait_start_time := None\<rparr>) (Assigned d p)" by blast
  from assms(1) have idr: "id_robot r = rid"
    by (auto simp: get_robot_def dest: find_Some_iff [THEN iffD1])
  then have "id_robot r' = rid" using r' by (simp add: log_msg_def)
  with assms(1) have "get_robot fm' rid = Some r'"
    unfolding f get_robot_def by (simp add: find_store_robot)
  then show ?thesis using f r' assms(4) by (simp add: log_msg_def)
qed

text \<open>
  Claim C5 as stated fails: robot 1 is moving on lane \<open>(0, 1)\<close>, reserved for it, after a
  task to vertex 1 and two ticks; a task to vertex 0 succeeds, the new path is \<open>[0]\<close>,
  the robot holds no lane, and \<open>(0, 1)\<close> is still reserved for robot 1 in the arbiter.
\<close>

theorem reassignment_orphans_lane:
  "c5_run = Inr c5_moving \<and>
   map status (robots c5_moving) = [''moving''] \<and>
   map current_lane (robots c5_moving) = [Some (0, 1)] \<and>
   map_of (occupied_lanes (traffic_manager c5_moving)) (0, 1) = Some 1 \<and>
   FleetManager_assign_task one_hop_search c5_moving 1 0 =
     Inr (\<lparr>success = True, message = AssignmentSucceeded, estimated_time = 1,
           path_found = [0]\<rparr>, c5_after) \<and>
   map path (robots c5_after) = [[0]] \<and>
   map current_lane (robots c5_after) = [None] \<and>
   map_of (occupied_lanes (traffic_manager c5_after)) (0, 1) = Some 1 \<and>
   is_lane_occupied (traffic_manager c5_after) (0, 1)"
  by (simp add: c5_run_eq c5_reassign)
     (simp add: c5_after_def c5_moving_def c5_robot_def is_lane_occupied_def)

text \<open>The reassignment theorem at that fleet.\<close>

theorem reassignment_witness:
  "get_robot c5_moving 1 = Some c5_robot \<and> status c5_robot = ''moving'' \<and>
   current_lane c5_robot = Some (0, 1) \<and>
   map_of (occupied_lanes (traffic_manager c5_moving)) (0, 1) = Some 1 \<and>
   traffic_manager c5_after = traffic_manager c5_moving \<and>
   map_of (occupied_lanes (traffic_manager c5_after)) (0, 1) = Some 1"
proof -
  have a: "get_robot c5_moving 1 = Some c5_robot"
    by (simp add: get_robot_def c5_moving_def c5_robot_def)
  have b: "status c5_robot = ''moving''" by (simp add: c5_robot_def)
  have c: "current_lane c5_robot = Some (0, 1)" by (simp add: c5_robot_def)
  have d: "map_of (occupied_lanes (traffic_manager c5_moving)) (0, 1) = Some 1"
    by (simp add: c5_moving_def)
  have e: "success \<lparr>success = True, message = AssignmentSucceeded, estimated_time = 1,
           path_found = [0]\<rparr>" by simp
  from reassignment_keeps_reservation [OF a b c d c5_reassign e] a b c d
  show ?thesis by simp
qed

subsection \<open>A destination without a path\<close>

lemma c6_fleet_eq:
  "c6_fleet = \<lparr>robots = [init_Robot 1 0 (Some demo_graph) default_RobotConfig 0],
      traffic_manager = init_TrafficManager 0, selected_robot = None, next_id = 2\<rparr>"
  by (simp add: c6_fleet_def spawn_robot_def Let_def init_FleetManager_def)

text \<open>
  Claim C6, as the code has it: for a robot of the fleet and a destination for which the
  path provider returns the empty path, the fleet's \<open>assign_task\<close> returns
  \<open>success = False\<close>, \<open>path = []\<close> and \<open>estimated_time = 0\<close>, and the fleet is unchanged:
  the robot keeps the status it had.
\<close>

theorem unreachable_destination_rejected_unchanged:
  assumes "get_robot fm rid = Some r" and "nav_graph r = Some ng"
    and "get_shortest_path search ng (current_vertex r) d = Inr []"
  shows "(case FleetManager_assign_task search fm rid d of
            Inl e \<Rightarrow> False
          | Inr (res, fm') \<Rightarrow>
              \<not> success res \<and> path_found res = [] \<and> estimated_time res = 0 \<and> fm' = fm) \<and>
         get_robot fm rid = Some r"
  using assms by (simp add: FleetManager_assign_task_def rejected_def)

text \<open>
  Claim C6 as stated fails in its last part: the idle robot at vertex 0 is refused
  vertex 3, and its status after the call is \<open>idle\<close>, not \<open>error\<close>.
\<close>

theorem unreachable_destination_status_idle:
  "get_shortest_path one_hop_search demo_graph 0 3 = Inr [] \<and>
   map current_vertex (robots c6_fleet) = [0] \<and>
   FleetManager_assign_task one_hop_search c6_fleet 1 3 =
     Inr (rejected (NoValidPathTo 3), c6_fleet) \<and>
   map status (robots c6_fleet) = [''idle'']"
  unfolding c6_fleet_eq
  by (simp add: demo_path_0_3 FleetManager_assign_task_def get_robot_def init_Robot_def)

text \<open>The rejection theorem at that fleet.\<close>

theorem unreachable_destination_witness:
  "get_robot c6_fleet 1 = Some (init_Robot 1 0 (Some demo_graph) default_RobotConfig 0) \<and>
   get_shortest_path one_hop_search demo_graph 0 3 = Inr [] \<and>
   (case FleetManager_assign_task one_hop_search c6_fleet 1 3 of
      Inl e \<Rightarrow> False
    | Inr (res, fm') \<Rightarrow>
        \<not> success res \<and> path_found res = [] \<and> estimated_time res = 0 \<and> fm' = c6_fleet)"
proof -
  let ?r = "init_Robot 1 0 (Some demo_graph) default_RobotConfig 0"
  have a: "get_robot c6_fleet 1 = Some ?r"
    unfolding c6_fleet_eq by (simp add: get_robot_def init_Robot_def)
  have b: "nav_graph ?r = Some demo_graph" by (simp add: init_Robot_def)
  have c: "get_shortest_path one_hop_search demo_graph (current_vertex ?r) 3 = Inr []"
    by (simp add: init_Robot_def demo_path_0_3)
  from unreachable_destination_rejected_unchanged [OF a b c] a demo_path_0_3
  show ?thesis by simp
qed

subsection \<open>Ticks and stale reservations\<close>

lemma c7_arbiter_eq:
  "c7_arbiter = \<lparr>occupied_lanes = [((0, 1), 7)], waiting_queues = [],
     occupation_timestamps = [((0, 1), 0)], last_deadlock_check = 0, event_log = []\<rparr>"
  by (simp add: c7_arbiter_def request_lane_def detect_collisions_def init_TrafficManager_def
      reverse_lane_def)

lemma idle_update:
  "update_robots one_hop_search
     \<lparr>robots = [(init_Robot 1 2 (Some demo_graph) default_RobotConfig 0)
                  \<lparr>last_update_time := t\<rparr>],
      traffic_manager = tm, selected_robot = None, next_id = 2\<rparr> dt now =
   Inr \<lparr>robots = [(init_Robot 1 2 (Some demo_graph) default_RobotConfig 0)
                  \<lparr>last_update_time := now\<rparr>],
      traffic_manager = tm, selected_robot = None, next_id = 2\<rparr>"
  by (simp add: update_robots_def Robot_update_def check_imminent_collision_def init_Robot_def
      default_RobotConfig_def)

lemma c7_fleet_eq:
  "c7_fleet = \<lparr>robots = [(init_Robot 1 2 (Some demo_graph) default_RobotConfig 0)
                          \<lparr>last_update_time := 0\<rparr>],
      traffic_manager = c7_arbiter, selected_robot = None, next_id = 2\<rparr>"
  by (simp add: c7_fleet_def spawn_robot_def Let_def init_FleetManager_def init_Robot_def)

lemma c7_ticks_eq: "c7_ticks = Inr c7_final"
  unfolding c7_ticks_def c7_fleet_eq c7_final_def by (simp add: idle_update)

text \<open>
  Claim C7 at a failing input: lane \<open>(0, 1)\<close> is granted at time 0 and never released;
  the fleet ticks at times 3, 6 and 9. After the ticks the reservation of time 0 is
  still there and a request for the lane at time 9 is denied, because no tick runs
  \<open>_perform_periodic_checks\<close>; that method, called at time 9, frees the lane, and the
  request is then granted.
\<close>

theorem ticks_never_reclaim_stale_lane:
  "c7_ticks = Inr c7_final \<and>
   map_of (occupation_timestamps (traffic_manager c7_final)) (0, 1) = Some 0 \<and>
   is_lane_occupied (traffic_manager c7_final) (0, 1) \<and>
   \<not> fst (request_lane (traffic_manager c7_final) 1 (0, 1) 9) \<and>
   \<not> is_lane_occupied (perform_periodic_checks c7_arbiter 9) (0, 1) \<and>
   fst (request_lane (perform_periodic_checks c7_arbiter 9) 1 (0, 1) 9)"
  unfolding c7_ticks_eq
  by (simp add: c7_final_def)
     (simp add: c7_arbiter_eq is_lane_occupied_def request_lane_def detect_collisions_def
      reverse_lane_def perform_periodic_checks_def stale_lanes_def release_lane_def Let_def)

subsection \<open>The replan of a waiting robot\<close>

text \<open>
  Claim C8 at a failing input: a robot has waited since time 1 for a destination that
  cannot be reached, and ticks at time 20 (the maximum wait is 10). \<open>_calculate_path\<close>
  returns the empty path and sets the status \<open>error\<close>; \<open>_handle_waiting\<close> then sets
  \<open>moving\<close>, so the tick ends with the empty path and the status \<open>moving\<close>.
\<close>

theorem waiting_replan_empty_path_moving:
  "status c8_robot = ''waiting'' \<and>
   calculate_path one_hop_search c8_robot =
     Inr (c8_robot\<lparr>path := [], status := ''error''\<rparr>) \<and>
   Robot_update one_hop_search c8_robot (init_TrafficManager 0) (1/2) 20 =
     Inr (True,
          c8_robot\<lparr>path := [], status := ''moving'', last_update_time := 20,
                   log_robot := [Replanning]\<rparr>,
          init_TrafficManager 0)"
  by (simp add: c8_robot_def init_Robot_def default_RobotConfig_def calculate_path_def
      demo_path_0_3 Robot_update_def check_imminent_collision_def handle_waiting_def
      log_msg_def)

subsection \<open>A destination outside the graph\<close>

text \<open>
  Claim C9 at a failing input: the fleet holds the idle robot 1 at vertex 0, and 7 is no
  vertex of the graph. The fleet's \<open>assign_task\<close> for robot 1 and vertex 7 returns no
  result dictionary: \<open>NodeNotFound\<close> leaves \<open>get_shortest_path\<close>, which catches
  \<open>NetworkXNoPath\<close> alone, and then \<open>assign_task\<close>.
\<close>

theorem assign_task_unknown_vertex_raises:
  "map status (robots c9_fleet) = [''idle''] \<and> 7 \<notin> graph_nodes (graph_edges demo_graph) \<and>
   FleetManager_assign_task one_hop_search c9_fleet 1 7 = Inl NodeNotFound"
  by (simp add: c9_fleet_def spawn_robot_def Let_def init_FleetManager_def init_Robot_def
      FleetManager_assign_task_def get_robot_def demo_path_0_7 demo_nodes)

subsection \<open>The handlers \<open>update\<close> calls and the class lacks\<close>

lemma c10_arbiter_eq:
  "c10_arbiter = \<lparr>occupied_lanes = [((2, 3), 2)], waiting_queues = [],
     occupation_timestamps = [((2, 3), 0)], last_deadlock_check = 0, event_log = []\<rparr>"
  by (simp add: c10_arbiter_def request_lane_def detect_collisions_def init_TrafficManager_def
      reverse_lane_def)

text \<open>
  Claim C10, as the code has it: \<open>update\<close> raises \<open>AttributeError\<close> for every charging
  robot on which the collision check at the head of \<open>update\<close> does not fire; where it
  fires, the status becomes \<open>emergency_stop\<close> first, and with a battery at or above the
  minimum \<open>update\<close> returns \<open>False\<close> without an error. \<open>update\<close> raises \<open>AttributeError\<close>
  for every robot whose battery is below the minimum and whose status is neither
  \<open>charging\<close> nor \<open>error\<close>.
\<close>

theorem update_missing_handlers:
  "(status r = ''charging'' \<and> \<not> check_imminent_collision r tm dt \<longrightarrow>
      Robot_update search r tm dt now = Inl AttributeError) \<and>
   (status r = ''charging'' \<and> check_imminent_collision r tm dt \<and>
      min_battery (config r) \<le> battery r \<longrightarrow>
      Robot_update search r tm dt now =
        Inr (False, r\<lparr>status := ''emergency_stop'', last_update_time := now\<rparr>, tm)) \<and>
   (status r \<noteq> ''charging'' \<and> status r \<noteq> ''error'' \<and> battery r < min_battery (config r) \<longrightarrow>
      Robot_update search r tm dt now = Inl AttributeError)"
  by (simp add: Robot_update_def)

text \<open>
  Claim C10 as stated fails for a charging robot that holds a lane, has the path
  \<open>[2, 3]\<close> with lane \<open>(2, 3)\<close> reserved, and would finish its lane within the tick: its
  status becomes \<open>emergency_stop\<close> and \<open>update\<close> returns without an error.
\<close>

theorem charging_preempted_by_emergency_stop:
  "status c10_robot = ''charging'' \<and>
   Robot_update one_hop_search c10_robot c10_arbiter 1 5 =
     Inr (False, c10_robot\<lparr>status := ''emergency_stop'', last_update_time := 5\<rparr>,
          c10_arbiter) \<and>
   Robot_update one_hop_search c10_robot c10_arbiter 1 5 \<noteq> Inl AttributeError"
  unfolding c10_arbiter_eq
  by (simp add: c10_robot_def init_Robot_def default_RobotConfig_def Robot_update_def
      check_imminent_collision_def is_lane_occupied_def)

text \<open>
  The theorem on the missing handlers at a charging robot without a lane, at a moving
  robot with battery 10, and at the charging robot stopped by the collision check.
\<close>

theorem update_missing_handlers_witness:
  "status c10_charging = ''charging'' \<and>
   \<not> check_imminent_collision c10_charging (init_TrafficManager 0) 1 \<and>
   Robot_update one_hop_search c10_charging (init_TrafficManager 0) 1 5 = Inl AttributeError \<and>
   status c10_low \<noteq> ''charging'' \<and> status c10_low \<noteq> ''error'' \<and>
   battery c10_low < min_battery (config c10_low) \<and>
   Robot_update one_hop_search c10_low (init_TrafficManager 0) 1 5 = Inl AttributeError \<and>
   status c10_robot = ''charging'' \<and> check_imminent_collision c10_robot c10_arbiter 1 \<and>
   min_battery (config c10_robot) \<le> battery c10_robot \<and>
   Robot_update one_hop_search c10_robot c10_arbiter 1 6 =
     Inr (False, c10_robot\<lparr>status := ''emergency_stop'', last_update_time := 6\<rparr>,
          c10_arbiter)"
proof -
  have a: "status c10_charging = ''charging'' \<and>
           \<not> check_imminent_collision c10_charging (init_TrafficManager 0) 1"
    by (simp add: c10_charging_def init_Robot_def check_imminent_collision_def)
  have b: "status c10_low \<noteq> ''charging'' \<and> status c10_low \<noteq> ''error'' \<and>
           battery c10_low < min_battery (config c10_low)"
    by (simp add: c10_low_def init_Robot_def default_RobotConfig_def)
  have c: "status c10_robot = ''charging'' \<and> check_imminent_collision c10_robot c10_arbiter 1 \<and>
           min_battery (config c10_robot) \<le> battery c10_robot"
    unfolding c10_arbiter_eq
    by (simp add: c10_robot_def init_Robot_def default_RobotConfig_def
        check_imminent_collision_def is_lane_occupied_def)
  from update_missing_handlers [of c10_charging "init_TrafficManager 0" 1 one_hop_search 5]
       update_missing_handlers [of c10_low "init_TrafficManager 0" 1 one_hop_search 5]
       update_missing_handlers [of c10_robot c10_arbiter 1 one_hop_search 6]
       a b c
  show ?thesis by simp
qed

end
